theory Spec2Isabelle
  imports Complex_Main
begin

section \<open>The DOM of a response document\<close>

text \<open>
  The service hands the response body to the browser's \<^verbatim>\<open>DOMParser\<close> and works on the
  resulting document only through \<^verbatim>\<open>querySelector\<close>, \<^verbatim>\<open>querySelectorAll\<close> and
  \<^verbatim>\<open>textContent\<close>. The document tree is therefore the input of the model: a node is an
  element (local name, child nodes), a text node, a CDATA section, a comment or a
  processing instruction. A CDATA section written \<^verbatim>\<open><![CDATA[x]]>\<close> is the node
  \<open>CDATASection x\<close>; in the DOM it is a kind of text node whose data is \<open>x\<close>.
\<close>

datatype node =
    Element string "node list"
  | Text string
  | CDATASection string
  | Comment string
  | ProcessingInstruction string string

datatype document = Document "node list"

text \<open>
  An element handle as the selector engine sees it: the local names of its ancestors
  (nearest first), its own local name and its child nodes. The ancestors matter for the
  descendant combinator of \<^verbatim>\<open>'tags tag'\<close>, which is matched against the whole document.
\<close>

datatype element = Elem (ancestors: "string list") (localName: string) (childNodes: "node list")

text \<open>What a node contributes to the text content of an element above it.\<close>

fun descendantText :: "node \<Rightarrow> string" where
  "descendantText (Element n cs) = concat (map descendantText cs)"
| "descendantText (Text d) = d"
| "descendantText (CDATASection d) = d"
| "descendantText (Comment d) = []"
| "descendantText (ProcessingInstruction t d) = []"

definition textContent :: "element \<Rightarrow> string" where
  "textContent e = concat (map descendantText (childNodes e))"

text \<open>The elements of a subtree in document order (preorder), each with its ancestors.\<close>

fun inclusiveDescendants :: "string list \<Rightarrow> node \<Rightarrow> element list" where
  "inclusiveDescendants anc (Element n cs) =
     Elem anc n cs # concat (map (inclusiveDescendants (n # anc)) cs)"
| "inclusiveDescendants anc (Text d) = []"
| "inclusiveDescendants anc (CDATASection d) = []"
| "inclusiveDescendants anc (Comment d) = []"
| "inclusiveDescendants anc (ProcessingInstruction t d) = []"

definition descendantElements :: "element \<Rightarrow> element list" where
  "descendantElements e =
     concat (map (inclusiveDescendants (localName e # ancestors e)) (childNodes e))"

definition documentElements :: "document \<Rightarrow> element list" where
  "documentElements d = (case d of Document cs \<Rightarrow> concat (map (inclusiveDescendants []) cs))"

text \<open>
  The two selector shapes the service uses: a type selector (\<^verbatim>\<open>'video'\<close>, \<^verbatim>\<open>'key'\<close>) and
  two type selectors joined by the descendant combinator (\<^verbatim>\<open>'tags tag'\<close>).
\<close>

datatype selector = TypeSel string | DescendantSel string string

fun matches :: "selector \<Rightarrow> element \<Rightarrow> bool" where
  "matches (TypeSel t) e = (localName e = t)"
| "matches (DescendantSel a t) e = (localName e = t \<and> a \<in> set (ancestors e))"

definition querySelectorAll :: "element \<Rightarrow> selector \<Rightarrow> element list" where
  "querySelectorAll e sel = filter (matches sel) (descendantElements e)"

definition querySelector :: "element \<Rightarrow> selector \<Rightarrow> element option" where
  "querySelector e sel = (case querySelectorAll e sel of [] \<Rightarrow> None | x # xs \<Rightarrow> Some x)"

definition documentQuerySelectorAll :: "document \<Rightarrow> selector \<Rightarrow> element list" where
  "documentQuerySelectorAll d sel = filter (matches sel) (documentElements d)"

definition documentQuerySelector :: "document \<Rightarrow> selector \<Rightarrow> element option" where
  "documentQuerySelector d sel =
     (case documentQuerySelectorAll d sel of [] \<Rightarrow> None | x # xs \<Rightarrow> Some x)"

section \<open>Field extraction\<close>

text \<open>
  \<^verbatim>\<open>s.replace(/^\[CDATA\[(.*)\]\]$/, '$1')\<close>. The pattern is anchored at both ends and has
  no flags, so it matches exactly when the whole string is \<^verbatim>\<open>[CDATA[\<close>, then any
  characters other than line terminators, then \<^verbatim>\<open>]]\<close>; the replacement is the part in
  between. A string that does not match is returned as it is. A \<open>char\<close> stands for a
  code unit below 256, so the line terminators that can occur are LF and CR.
\<close>

definition isLineTerminator :: "char \<Rightarrow> bool" where
  "isLineTerminator c = (c = CHR 0x0A \<or> c = CHR 0x0D)"

definition cdataInner :: "string \<Rightarrow> string" where
  "cdataInner s = take (length s - 9) (drop 7 s)"

definition matchesCDATA :: "string \<Rightarrow> bool" where
  "matchesCDATA s =
     (9 \<le> length s \<and> take 7 s = ''[CDATA['' \<and> drop (length s - 2) s = '']]''
      \<and> list_all (\<lambda>c. \<not> isLineTerminator c) (cdataInner s))"

definition replaceCDATA :: "string \<Rightarrow> string" where
  "replaceCDATA s = (if matchesCDATA s then cdataInner s else s)"

text \<open>\<^verbatim>\<open>a || b\<close> on strings: the empty string is the only falsy string.\<close>

definition orElse :: "string \<Rightarrow> string \<Rightarrow> string" where
  "orElse a b = (if a = [] then b else a)"

definition getCData :: "element \<Rightarrow> string \<Rightarrow> string" where
  "getCData element tagName =
     (case querySelector element (TypeSel tagName) of
        None \<Rightarrow> []
      | Some node \<Rightarrow> orElse (replaceCDATA (textContent node)) [])"

section \<open>The response parser\<close>

record thumbnails =
  full :: string
  small :: string
  medium :: string

record Field59Video =
  key :: string
  title :: string
  category :: string
  tags :: "string list"
  url :: string
  adaptiveStream :: string
  duration :: string
  summary :: string
  description :: string
  thumbnails :: thumbnails
  playlists :: "string list"
  createDate :: string
  lastModifiedDate :: string
  liveDate :: string
  owner :: string
  user :: string
  id_field :: string

text \<open>The body of the \<^verbatim>\<open>map\<close> callback of \<^verbatim>\<open>parseXMLResponse\<close>.\<close>

definition videoOfElement :: "element \<Rightarrow> Field59Video" where
  "videoOfElement videoEl =
     \<lparr> key = getCData videoEl ''key'',
       title = getCData videoEl ''title'',
       category = getCData videoEl ''category'',
       tags = map (\<lambda>tag. orElse (replaceCDATA (textContent tag)) [])
                (querySelectorAll videoEl (DescendantSel ''tags'' ''tag'')),
       url = getCData videoEl ''url'',
       adaptiveStream = getCData videoEl ''adaptive_stream'',
       duration = getCData videoEl ''duration'',
       summary = getCData videoEl ''summary'',
       description = getCData videoEl ''description'',
       thumbnails = \<lparr> full = getCData videoEl ''thumb'',
                      small = getCData videoEl ''thumbSmall'',
                      medium = getCData videoEl ''thumbMedium'' \<rparr>,
       playlists = map (\<lambda>playlist. orElse (replaceCDATA (textContent playlist)) [])
                     (querySelectorAll videoEl (DescendantSel ''playlists'' ''playlist'')),
       createDate = getCData videoEl ''createDate'',
       lastModifiedDate = getCData videoEl ''lastModifiedDate'',
       liveDate = getCData videoEl ''liveDate'',
       owner = getCData videoEl ''owner'',
       user = getCData videoEl ''user'',
       id_field = getCData videoEl ''id'' \<rparr>"

text \<open>
  \<^verbatim>\<open>parseXMLResponse\<close>, from the document that \<^verbatim>\<open>DOMParser.parseFromString\<close> returns for
  the response body.
\<close>

definition parseXMLResponse :: "document \<Rightarrow> Field59Video list" where
  "parseXMLResponse xmlDoc =
     (let videoElements = documentQuerySelectorAll xmlDoc (TypeSel ''video'')
      in map videoOfElement videoElements)"

text \<open>
  The number of elements with a given local name in a tree, counted by recursion over the
  tree and independently of the selector engine above.
\<close>

fun countElements :: "string \<Rightarrow> node \<Rightarrow> nat" where
  "countElements t (Element n cs) =
     (if n = t then 1 else 0) + sum_list (map (countElements t) cs)"
| "countElements t (Text d) = 0"
| "countElements t (CDATASection d) = 0"
| "countElements t (Comment d) = 0"
| "countElements t (ProcessingInstruction p d) = 0"

definition countDocumentElements :: "string \<Rightarrow> document \<Rightarrow> nat" where
  "countDocumentElements t d = (case d of Document cs \<Rightarrow> sum_list (map (countElements t) cs))"

section \<open>The parser's result by recursion over the tree\<close>

text \<open>
  What the claims say about the parser, written as recursion over the document tree and
  without the selector engine, to be compared with the definitions above. The first
  element with a given name in a subtree, in document order, is found by \<open>firstNamed\<close>,
  which gives its child nodes.
\<close>

fun firstSome :: "'a option list \<Rightarrow> 'a option" where
  "firstSome [] = None"
| "firstSome (None # xs) = firstSome xs"
| "firstSome (Some x # xs) = Some x"

fun firstNamed :: "string \<Rightarrow> node \<Rightarrow> node list option" where
  "firstNamed t (Element n cs) = (if n = t then Some cs else firstSome (map (firstNamed t) cs))"
| "firstNamed t (Text d) = None"
| "firstNamed t (CDATASection d) = None"
| "firstNamed t (Comment d) = None"
| "firstNamed t (ProcessingInstruction p d) = None"

text \<open>
  The text of a field below a list of child nodes: of the first element with that name,
  among the children or deeper, the text content with the wrapper pattern replaced; the
  empty string if there is no such element.
\<close>

definition fieldText :: "string \<Rightarrow> node list \<Rightarrow> string" where
  "fieldText t cs =
     (case firstSome (map (firstNamed t) cs) of
        None \<Rightarrow> []
      | Some ds \<Rightarrow> replaceCDATA (concat (map descendantText ds)))"

text \<open>
  The texts of the elements named \<open>t\<close> that have an ancestor named \<open>a\<close>, in document
  order; \<open>inside\<close> says whether such an ancestor has been passed already.
\<close>

fun groupTexts :: "string \<Rightarrow> string \<Rightarrow> bool \<Rightarrow> node \<Rightarrow> string list" where
  "groupTexts a t inside (Element n cs) =
     (if n = t \<and> inside then [replaceCDATA (concat (map descendantText cs))] else [])
     @ concat (map (groupTexts a t (inside \<or> n = a)) cs)"
| "groupTexts a t inside (Text d) = []"
| "groupTexts a t inside (CDATASection d) = []"
| "groupTexts a t inside (Comment d) = []"
| "groupTexts a t inside (ProcessingInstruction p d) = []"

text \<open>
  The records of a subtree in document order: the record of a \<^verbatim>\<open>video\<close> element comes
  before the records of the \<^verbatim>\<open>video\<close> elements nested in it, and siblings come from left
  to right.
\<close>

fun recordsOfNode :: "string list \<Rightarrow> node \<Rightarrow> Field59Video list" where
  "recordsOfNode anc (Element n cs) =
     (if n = ''video'' then [videoOfElement (Elem anc n cs)] else [])
     @ concat (map (recordsOfNode (n # anc)) cs)"
| "recordsOfNode anc (Text d) = []"
| "recordsOfNode anc (CDATASection d) = []"
| "recordsOfNode anc (Comment d) = []"
| "recordsOfNode anc (ProcessingInstruction p d) = []"

text \<open>The names of the child elements of an element, and the first entry of a list.\<close>

fun childElementNames :: "node list \<Rightarrow> string list" where
  "childElementNames [] = []"
| "childElementNames (Element n cs # ns) = n # childElementNames ns"
| "childElementNames (Text d # ns) = childElementNames ns"
| "childElementNames (CDATASection d # ns) = childElementNames ns"
| "childElementNames (Comment d # ns) = childElementNames ns"
| "childElementNames (ProcessingInstruction p d # ns) = childElementNames ns"

definition firstOf :: "'a list \<Rightarrow> 'a option" where
  "firstOf xs = (case xs of [] \<Rightarrow> None | x # ys \<Rightarrow> Some x)"


section \<open>Numbers and the duration normaliser\<close>

text \<open>
  A JavaScript number is \<open>NaN\<close>, an infinity or a finite value. \<open>Finite r\<close> carries the
  mathematical value of the number; rounding to binary64 and the sign of zero are not
  represented: a literal beyond the range of binary64, such as \<^verbatim>\<open>1e1000\<close>, is an infinity
  in the program and finite here. On integers of magnitude below \<open>2 ^ 53\<close>, which is
  where every evaluation below stays, the arithmetic of the program is exact and agrees
  with this one.
\<close>

datatype number = NaN | PosInfinity | NegInfinity | Finite rat

fun jsNeg :: "number \<Rightarrow> number" where
  "jsNeg NaN = NaN"
| "jsNeg PosInfinity = NegInfinity"
| "jsNeg NegInfinity = PosInfinity"
| "jsNeg (Finite a) = Finite (- a)"

fun jsMul :: "number \<Rightarrow> number \<Rightarrow> number" where
  "jsMul (Finite a) (Finite b) = Finite (a * b)"
| "jsMul (Finite a) PosInfinity =
     (if a = 0 then NaN else if 0 < a then PosInfinity else NegInfinity)"
| "jsMul (Finite a) NegInfinity =
     (if a = 0 then NaN else if 0 < a then NegInfinity else PosInfinity)"
| "jsMul PosInfinity (Finite b) =
     (if b = 0 then NaN else if 0 < b then PosInfinity else NegInfinity)"
| "jsMul NegInfinity (Finite b) =
     (if b = 0 then NaN else if 0 < b then NegInfinity else PosInfinity)"
| "jsMul PosInfinity PosInfinity = PosInfinity"
| "jsMul NegInfinity NegInfinity = PosInfinity"
| "jsMul PosInfinity NegInfinity = NegInfinity"
| "jsMul NegInfinity PosInfinity = NegInfinity"
| "jsMul NaN y = NaN"
| "jsMul x NaN = NaN"

fun jsAdd :: "number \<Rightarrow> number \<Rightarrow> number" where
  "jsAdd (Finite a) (Finite b) = Finite (a + b)"
| "jsAdd (Finite a) PosInfinity = PosInfinity"
| "jsAdd (Finite a) NegInfinity = NegInfinity"
| "jsAdd PosInfinity (Finite b) = PosInfinity"
| "jsAdd NegInfinity (Finite b) = NegInfinity"
| "jsAdd PosInfinity PosInfinity = PosInfinity"
| "jsAdd NegInfinity NegInfinity = NegInfinity"
| "jsAdd PosInfinity NegInfinity = NaN"
| "jsAdd NegInfinity PosInfinity = NaN"
| "jsAdd NaN y = NaN"
| "jsAdd x NaN = NaN"

text \<open>
  \<^verbatim>\<open>Number(s)\<close> on a string: white space is trimmed, the empty string is \<open>0\<close>, and the
  rest must be a numeric literal (an optionally signed decimal literal with optional
  fraction and exponent, \<^verbatim>\<open>Infinity\<close>, or an unsigned binary, octal or hexadecimal
  integer); anything else is \<open>NaN\<close>.
\<close>

definition isStrWhiteSpaceChar :: "char \<Rightarrow> bool" where
  "isStrWhiteSpaceChar c =
     (c \<in> set [CHR 0x09, CHR 0x0A, CHR 0x0B, CHR 0x0C, CHR 0x0D, CHR 0x20, CHR 0xA0])"

definition trimWhiteSpace :: "string \<Rightarrow> string" where
  "trimWhiteSpace s =
     rev (dropWhile isStrWhiteSpaceChar (rev (dropWhile isStrWhiteSpaceChar s)))"

definition digitValue :: "char \<Rightarrow> nat option" where
  "digitValue c =
     (let n = (of_char c :: nat)
      in if 48 \<le> n \<and> n \<le> 57 then Some (n - 48)
         else if 97 \<le> n \<and> n \<le> 102 then Some (n - 87)
         else if 65 \<le> n \<and> n \<le> 70 then Some (n - 55)
         else None)"

fun digitsValue :: "nat \<Rightarrow> string \<Rightarrow> nat \<Rightarrow> nat option" where
  "digitsValue b [] acc = Some acc"
| "digitsValue b (c # cs) acc =
     (case digitValue c of
        None \<Rightarrow> None
      | Some v \<Rightarrow> if v < b then digitsValue b cs (b * acc + v) else None)"

definition digits :: "nat \<Rightarrow> string \<Rightarrow> nat option" where
  "digits b s = (if s = [] then None else digitsValue b s 0)"

definition signedInteger :: "string \<Rightarrow> int option" where
  "signedInteger s =
     (if take 1 s = ''+'' then map_option int (digits 10 (drop 1 s))
      else if take 1 s = ''-'' then map_option (\<lambda>n. - int n) (digits 10 (drop 1 s))
      else map_option int (digits 10 s))"

definition exponentPart :: "string \<Rightarrow> int option" where
  "exponentPart s = (if s = [] then Some 0 else signedInteger (drop 1 s))"

definition scale10 :: "rat \<Rightarrow> int \<Rightarrow> rat" where
  "scale10 m k = (if 0 \<le> k then m * 10 ^ nat k else m / 10 ^ nat (- k))"

definition unsignedDecimal :: "string \<Rightarrow> number" where
  "unsignedDecimal s =
     (if s = ''Infinity'' then PosInfinity
      else
        let notE = (\<lambda>c. c \<noteq> CHR ''e'' \<and> c \<noteq> CHR ''E'');
            mant = takeWhile notE s;
            ex = dropWhile notE s;
            ip = takeWhile (\<lambda>c. c \<noteq> CHR ''.'') mant;
            fr = dropWhile (\<lambda>c. c \<noteq> CHR ''.'') mant;
            fd = drop 1 fr
        in if ip = [] \<and> fd = [] then NaN
           else case (digitsValue 10 ip 0, digitsValue 10 fd 0, exponentPart ex) of
                  (Some i, Some f, Some k) \<Rightarrow>
                     Finite (scale10 (of_nat i + of_nat f / 10 ^ length fd) k)
                | _ \<Rightarrow> NaN)"

definition Number :: "string \<Rightarrow> number" where
  "Number str =
     (let s = trimWhiteSpace str
      in if s = [] then Finite 0
         else if take 2 s = ''0x'' \<or> take 2 s = ''0X'' then
           (case digits 16 (drop 2 s) of None \<Rightarrow> NaN | Some n \<Rightarrow> Finite (of_nat n))
         else if take 2 s = ''0o'' \<or> take 2 s = ''0O'' then
           (case digits 8 (drop 2 s) of None \<Rightarrow> NaN | Some n \<Rightarrow> Finite (of_nat n))
         else if take 2 s = ''0b'' \<or> take 2 s = ''0B'' then
           (case digits 2 (drop 2 s) of None \<Rightarrow> NaN | Some n \<Rightarrow> Finite (of_nat n))
         else if take 1 s = ''+'' then unsignedDecimal (drop 1 s)
         else if take 1 s = ''-'' then jsNeg (unsignedDecimal (drop 1 s))
         else unsignedDecimal s)"

text \<open>\<^verbatim>\<open>s.split(sep)\<close> for a one-character separator.\<close>

fun split :: "char \<Rightarrow> string \<Rightarrow> string list" where
  "split sep [] = [[]]"
| "split sep (c # cs) =
     (if c = sep then [] # split sep cs
      else (case split sep cs of [] \<Rightarrow> [[c]] | p # ps \<Rightarrow> (c # p) # ps))"

text \<open>\<^verbatim>\<open>parseDuration\<close>; \<open>None\<close> is \<^verbatim>\<open>undefined\<close>.\<close>

definition parseDuration :: "string \<Rightarrow> number option" where
  "parseDuration durationStr =
     (if durationStr = [] then None
      else if Number durationStr \<noteq> NaN then Some (Number durationStr)
      else
        let parts = map Number (split CHR '':'' durationStr)
        in if length parts = 3 then
             Some (jsAdd (jsAdd (jsMul (parts ! 0) (Finite 3600)) (jsMul (parts ! 1) (Finite 60)))
                         (parts ! 2))
           else if length parts = 2 then
             Some (jsAdd (jsMul (parts ! 0) (Finite 60)) (parts ! 1))
           else None)"

section \<open>The schema mapper\<close>

text \<open>
  The application's \<^verbatim>\<open>Video\<close> type; an optional property is an \<open>option\<close>, with \<open>None\<close>
  for a property that is \<^verbatim>\<open>undefined\<close>.
\<close>

datatype video_status = processing | ready | failed

record field59_data =
  f59_key :: string
  f59_category :: string
  f59_tags :: "string list"
  f59_adaptiveStream :: string
  f59_summary :: string
  f59_description :: string
  f59_playlists :: "string list"
  f59_lastModifiedDate :: string
  f59_owner :: string

record Video =
  video_id :: string
  video_title :: string
  video_url :: string
  video_thumbnail :: "string option"
  video_duration :: "number option"
  video_createdAt :: string
  video_size :: "number option"
  video_format :: "string option"
  video_status :: "video_status option"
  video_field59 :: "field59_data option"

text \<open>
  \<^verbatim>\<open>convertToLocalVideo\<close>. The first argument is \<^verbatim>\<open>new Date().toISOString()\<close>, the wall
  clock at the time of the call.
\<close>

definition convertToLocalVideo :: "string \<Rightarrow> Field59Video \<Rightarrow> Video" where
  "convertToLocalVideo now field59Video =
     \<lparr> video_id = key field59Video,
       video_title = title field59Video,
       video_url = orElse (url field59Video) (adaptiveStream field59Video),
       video_thumbnail =
         Some (orElse (medium (thumbnails field59Video)) (full (thumbnails field59Video))),
       video_duration = parseDuration (duration field59Video),
       video_createdAt = orElse (createDate field59Video) now,
       video_size = None,
       video_format = Some ''mp4'',
       video_status = Some ready,
       video_field59 = Some
         \<lparr> f59_key = key field59Video,
           f59_category = category field59Video,
           f59_tags = tags field59Video,
           f59_adaptiveStream = adaptiveStream field59Video,
           f59_summary = summary field59Video,
           f59_description = description field59Video,
           f59_playlists = playlists field59Video,
           f59_lastModifiedDate = lastModifiedDate field59Video,
           f59_owner = owner field59Video \<rparr> \<rparr>"

section \<open>Transport outcomes and the catch blocks\<close>

text \<open>
  Each service call awaits one HTTP request. What the request does is the input of the
  model: it resolves with a body (for the calls that read it, the document that
  \<^verbatim>\<open>DOMParser\<close> makes of it), or it rejects with an exception. An exception is an Axios
  error, with the \<^verbatim>\<open>response\<close> it carries if there was one, or any other error,
  identified by its message. Of \<^verbatim>\<open>error.response\<close> the catch blocks read the status and
  \<^verbatim>\<open>data?.message\<close>; \<open>None\<close> is a message that is \<^verbatim>\<open>undefined\<close>. Credentials, limit, key,
  URL and title only shape the request.
\<close>

record error_response =
  status :: nat
  data_message :: "string option"

datatype exception = AxiosError "error_response option" | Error string

datatype 'a axios_outcome = Resolved 'a | Rejected exception

datatype 'a outcome = Returns 'a | Throws exception

text \<open>\<^verbatim>\<open>error.response?.data?.message || fallback\<close>\<close>

definition messageOr :: "error_response option \<Rightarrow> string \<Rightarrow> string" where
  "messageOr response fallback =
     (case response of
        None \<Rightarrow> fallback
      | Some r \<Rightarrow> (case data_message r of None \<Rightarrow> fallback | Some m \<Rightarrow> orElse m fallback))"

definition listVideos_catch :: "exception \<Rightarrow> Field59Video list outcome" where
  "listVideos_catch error =
     (case error of
        AxiosError response \<Rightarrow>
          if map_option status response = Some 401
          then Throws (Error ''Invalid Field59 credentials'')
          else Throws (Error (messageOr response ''Failed to fetch videos from Field59''))
      | Error m \<Rightarrow> Throws error)"

definition listVideos :: "document axios_outcome \<Rightarrow> Field59Video list outcome" where
  "listVideos response =
     (case response of
        Resolved xmlDoc \<Rightarrow> Returns (parseXMLResponse xmlDoc)
      | Rejected error \<Rightarrow> listVideos_catch error)"

definition createVideoFromUrl_catch :: "exception \<Rightarrow> string outcome" where
  "createVideoFromUrl_catch error =
     (case error of
        AxiosError response \<Rightarrow>
          if map_option status response = Some 401
          then Throws (Error ''Invalid Field59 credentials'')
          else Throws (Error (messageOr response ''Failed to create video in Field59''))
      | Error m \<Rightarrow> Throws error)"

text \<open>
  The \<^verbatim>\<open>try\<close> block of \<^verbatim>\<open>createVideoFromUrl\<close> after the request; its own
  \<^verbatim>\<open>throw\<close> is inside the \<^verbatim>\<open>try\<close> and so passes through the catch block as well.
\<close>

definition createVideoFromUrl_try :: "document axios_outcome \<Rightarrow> string outcome" where
  "createVideoFromUrl_try response =
     (case response of
        Rejected error \<Rightarrow> Throws error
      | Resolved xmlDoc \<Rightarrow>
          (case map_option textContent (documentQuerySelector xmlDoc (TypeSel ''key'')) of
             None \<Rightarrow> Throws (Error ''Failed to get video key from response'')
           | Some k \<Rightarrow>
               if k = [] then Throws (Error ''Failed to get video key from response'')
               else Returns k))"

definition createVideoFromUrl :: "document axios_outcome \<Rightarrow> string outcome" where
  "createVideoFromUrl response =
     (case createVideoFromUrl_try response of
        Returns k \<Rightarrow> Returns k
      | Throws error \<Rightarrow> createVideoFromUrl_catch error)"

definition deleteVideo_catch :: "exception \<Rightarrow> unit outcome" where
  "deleteVideo_catch error =
     (case error of
        AxiosError response \<Rightarrow>
          if map_option status response = Some 401
          then Throws (Error ''Invalid Field59 credentials'')
          else if map_option status response = Some 404
          then Throws (Error ''Video not found'')
          else Throws (Error (messageOr response ''Failed to delete video from Field59''))
      | Error m \<Rightarrow> Throws error)"

definition deleteVideo :: "unit axios_outcome \<Rightarrow> unit outcome" where
  "deleteVideo response =
     (case response of
        Resolved u \<Rightarrow> Returns ()
      | Rejected error \<Rightarrow> deleteVideo_catch error)"

definition getVideo_catch :: "exception \<Rightarrow> Field59Video option outcome" where
  "getVideo_catch error =
     (case error of
        AxiosError response \<Rightarrow>
          if map_option status response = Some 401
          then Throws (Error ''Invalid Field59 credentials'')
          else if map_option status response = Some 404
          then Returns None
          else Throws (Error (messageOr response ''Failed to fetch video details''))
      | Error m \<Rightarrow> Throws error)"

definition getVideo :: "document axios_outcome \<Rightarrow> Field59Video option outcome" where
  "getVideo response =
     (case response of
        Resolved xmlDoc \<Rightarrow>
          (let videos = parseXMLResponse xmlDoc
           in Returns (if 0 < length videos then Some (videos ! 0) else None))
      | Rejected error \<Rightarrow> getVideo_catch error)"

section \<open>Example inputs\<close>

text \<open>
  A list response with two videos: the first has a duration of one minute, a medium
  thumbnail and two tags, the second has no thumbnails and a duration that is not one.
\<close>

definition listResponse :: document where
  "listResponse = Document [Element ''videos'' [
     Element ''video'' [
       Element ''key'' [CDATASection ''k1''],
       Element ''title'' [CDATASection ''First''],
       Element ''duration'' [CDATASection ''01:00''],
       Element ''thumbMedium'' [CDATASection ''https://cdn.example/m1.jpg''],
       Element ''tags'' [Element ''tag'' [CDATASection ''news''], Element ''tag'' [Text ''local'']]],
     Text [CHR 0x0A],
     Element ''video'' [
       Element ''key'' [CDATASection ''k2''],
       Element ''duration'' [CDATASection ''bad'']]]]"

text \<open>A vendor record with nothing but its key.\<close>

definition minimalVideo :: "string \<Rightarrow> Field59Video" where
  "minimalVideo k =
     \<lparr> key = k, title = [], category = [], tags = [], url = [], adaptiveStream = [],
       duration = [], summary = [], description = [],
       thumbnails = \<lparr> full = [], small = [], medium = [] \<rparr>, playlists = [],
       createDate = [], lastModifiedDate = [], liveDate = [], owner = [], user = [],
       id_field = [] \<rparr>"

text \<open>
  Two create responses. The first is the document of the body
  \<^verbatim>\<open><video><key><![CDATA[abc123]]></key></video>\<close>. In the second the key element holds
  the eleven characters \<^verbatim>\<open>[CDATA[abc123]]\<close> as plain text, the shape that the pattern of
  \<^verbatim>\<open>getCData\<close> is written for.
\<close>

definition createResponse :: document where
  "createResponse = Document [Element ''video'' [Element ''key'' [CDATASection ''abc123'']]]"

definition createResponseLiteral :: document where
  "createResponseLiteral = Document [Element ''video'' [Element ''key'' [Text ''[CDATA[abc123]]'']]]"

section \<open>Helper lemmas\<close>

lemma length_filter_concat:
  "length (filter P (concat xss)) = sum_list (map (\<lambda>xs. length (filter P xs)) xss)"
  by (induction xss) simp_all

lemma matches_TypeSel: "matches (TypeSel t) = (\<lambda>e. localName e = t)"
  by (rule ext) simp

lemma count_inclusiveDescendants:
  "length (filter (\<lambda>e. localName e = t) (inclusiveDescendants anc n)) = countElements t n"
proof (induction n arbitrary: anc)
  case (Element x cs)
  then show ?case by (simp add: length_filter_concat comp_def cong: map_cong)
qed simp_all

lemma length_documentQuerySelectorAll:
  "length (documentQuerySelectorAll d (TypeSel t)) = countDocumentElements t d"
  by (cases d) (simp add: documentQuerySelectorAll_def documentElements_def
      countDocumentElements_def length_filter_concat comp_def count_inclusiveDescendants
      matches_TypeSel)

lemma parseXMLResponse_append:
  "parseXMLResponse (Document (before @ after)) =
     parseXMLResponse (Document before) @ parseXMLResponse (Document after)"
  by (simp add: parseXMLResponse_def documentQuerySelectorAll_def documentElements_def)

lemma getCData_missing: "querySelector e (TypeSel t) = None \<Longrightarrow> getCData e t = []"
  by (simp add: getCData_def)

lemma matchesCDATA_wrap:
  assumes "list_all (\<lambda>c. \<not> isLineTerminator c) m"
  shows "matchesCDATA (''[CDATA['' @ m @ '']]'')" and "cdataInner (''[CDATA['' @ m @ '']]'') = m"
  using assms by (simp_all add: matchesCDATA_def cdataInner_def)

lemma matchesCDATA_unwrap:
  assumes "matchesCDATA s"
  shows "s = ''[CDATA['' @ cdataInner s @ '']]''"
proof -
  from assms have len: "9 \<le> length s" and pre: "take 7 s = ''[CDATA[''"
    and suf: "drop (length s - 2) s = '']]''"
    by (simp_all add: matchesCDATA_def)
  have "s = take 7 s @ drop 7 s" by simp
  also have "drop 7 s = take (length s - 9) (drop 7 s) @ drop (length s - 9) (drop 7 s)"
    by (rule append_take_drop_id [symmetric])
  also have "drop (length s - 9) (drop 7 s) = drop (length s - 2) s"
  proof -
    have "length s - 9 + 7 = length s - 2" using len by arith
    then show ?thesis by (simp only: drop_drop)
  qed
  finally show ?thesis using pre suf by (simp add: cdataInner_def)
qed

lemma matchesCDATA_iff:
  "matchesCDATA s \<longleftrightarrow>
     (\<exists>m. s = ''[CDATA['' @ m @ '']]'' \<and> list_all (\<lambda>c. \<not> isLineTerminator c) m)"
proof
  assume h: "matchesCDATA s"
  then have "list_all (\<lambda>c. \<not> isLineTerminator c) (cdataInner s)"
    by (simp add: matchesCDATA_def)
  with matchesCDATA_unwrap [OF h] show "\<exists>m. s = ''[CDATA['' @ m @ '']]'' \<and> list_all (\<lambda>c. \<not> isLineTerminator c) m"
    by blast
next
  assume "\<exists>m. s = ''[CDATA['' @ m @ '']]'' \<and> list_all (\<lambda>c. \<not> isLineTerminator c) m"
  then show "matchesCDATA s" using matchesCDATA_wrap(1) by blast
qed

lemma documentQuerySelector_none:
  "countDocumentElements t d = 0 \<Longrightarrow> documentQuerySelector d (TypeSel t) = None"
  using length_documentQuerySelectorAll [of d t]
  by (simp add: documentQuerySelector_def)

lemma rejected_calls:
  "listVideos (Rejected error) = listVideos_catch error"
  "createVideoFromUrl (Rejected error) = createVideoFromUrl_catch error"
  "deleteVideo (Rejected error) = deleteVideo_catch error"
  "getVideo (Rejected error) = getVideo_catch error"
  by (simp_all add: listVideos_def createVideoFromUrl_def createVideoFromUrl_try_def
      deleteVideo_def getVideo_def)

lemma parseDuration_examples:
  "parseDuration ''125'' = Some (Finite 125)"
  "parseDuration ''02:05'' = Some (Finite 125)"
  "parseDuration ''01:02:05'' = Some (Finite 3725)"
  "parseDuration '''' = None"
  "parseDuration ''abc'' = None"
  by code_simp+

lemma parseDuration_other_shapes:
  "durationStr = [] \<or> Number durationStr = NaN \<and> length (split CHR '':'' durationStr) \<notin> {2, 3}
     \<Longrightarrow> parseDuration durationStr = None"
  by (auto simp add: parseDuration_def Let_def)

lemma firstOf_filter_concat:
  "firstOf (filter P (concat xss)) = firstSome (map (\<lambda>xs. firstOf (filter P xs)) xss)"
proof (induction xss)
  case Nil
  show ?case by (simp add: firstOf_def)
next
  case (Cons xs xss)
  show ?case
  proof (cases "filter P xs")
    case Nil
    with Cons show ?thesis by (simp add: firstOf_def)
  next
    case (Cons y ys)
    then show ?thesis by (simp add: firstOf_def)
  qed
qed

lemma map_option_firstSome:
  "map_option f (firstSome os) = firstSome (map (map_option f) os)"
  by (induction os rule: firstSome.induct) simp_all

lemma firstNamed_inclusiveDescendants:
  "map_option childNodes (firstOf (filter (\<lambda>e. localName e = t) (inclusiveDescendants anc n)))
     = firstNamed t n"
proof (induction n arbitrary: anc)
  case (Element x cs)
  show ?case
  proof (cases "x = t")
    case True
    then show ?thesis by (simp add: firstOf_def)
  next
    case False
    with Element.IH show ?thesis
      by (simp add: firstOf_filter_concat map_option_firstSome comp_def cong: map_cong)
  qed
qed (simp_all add: firstOf_def)

lemma getCData_fieldText: "getCData e t = fieldText t (childNodes e)"
proof -
  have q: "querySelector e (TypeSel t) =
      firstOf (filter (\<lambda>x. localName x = t) (descendantElements e))"
    by (simp add: querySelector_def querySelectorAll_def firstOf_def matches_TypeSel)
  have "firstSome (map (firstNamed t) (childNodes e)) =
      map_option childNodes (querySelector e (TypeSel t))"
    unfolding q descendantElements_def firstOf_filter_concat map_option_firstSome
    by (simp add: comp_def firstNamed_inclusiveDescendants)
  then show ?thesis
    by (cases "querySelector e (TypeSel t)")
      (simp_all add: getCData_def fieldText_def textContent_def orElse_def)
qed

lemma firstNamed_none: "countElements t n = 0 \<Longrightarrow> firstNamed t n = None"
proof (induction n)
  case (Element x cs)
  then have "x \<noteq> t" and "\<forall>c \<in> set cs. countElements t c = 0"
    by (auto split: if_splits)
  with Element.IH have "\<forall>c \<in> set cs. firstNamed t c = None" by blast
  then have "firstSome (map (firstNamed t) cs) = None"
    by (induction cs) simp_all
  with \<open>x \<noteq> t\<close> show ?case by simp
qed simp_all

lemma firstSome_all_none: "\<forall>x \<in> set xs. f x = None \<Longrightarrow> firstSome (map f xs @ ys) = firstSome ys"
  by (induction xs) simp_all

lemma fieldText_missing:
  "sum_list (map (countElements t) cs) = 0 \<Longrightarrow> fieldText t cs = []"
proof -
  assume "sum_list (map (countElements t) cs) = 0"
  then have "\<forall>c \<in> set cs. firstNamed t c = None"
    by (auto intro: firstNamed_none)
  from firstSome_all_none [OF this, of "[]"] show ?thesis
    by (simp add: fieldText_def)
qed

lemma fieldText_child:
  "sum_list (map (countElements t) before) = 0 \<Longrightarrow>
   fieldText t (before @ Element t ds # after) = replaceCDATA (concat (map descendantText ds))"
proof -
  assume "sum_list (map (countElements t) before) = 0"
  then have "\<forall>c \<in> set before. firstNamed t c = None"
    by (auto intro: firstNamed_none)
  from firstSome_all_none [OF this] show ?thesis
    by (simp add: fieldText_def)
qed

lemma matches_DescendantSel:
  "matches (DescendantSel a t) = (\<lambda>e. localName e = t \<and> a \<in> set (ancestors e))"
  by (rule ext) simp

lemma groupTexts_inclusiveDescendants:
  "map (\<lambda>e. orElse (replaceCDATA (textContent e)) [])
     (filter (matches (DescendantSel a t)) (inclusiveDescendants anc n))
   = groupTexts a t (a \<in> set anc) n"
proof (induction n arbitrary: anc)
  case (Element x cs)
  have "(a \<in> set (x # anc)) = (a \<in> set anc \<or> x = a)" by auto
  with Element.IH [of _ "x # anc"]
  have "concat (map (\<lambda>c. map (\<lambda>e. orElse (replaceCDATA (textContent e)) [])
          (filter (matches (DescendantSel a t)) (inclusiveDescendants (x # anc) c))) cs)
        = concat (map (groupTexts a t (a \<in> set anc \<or> x = a)) cs)"
    by (simp add: matches_DescendantSel cong: map_cong)
  then show ?case
    by (auto simp add: map_concat filter_concat comp_def matches_DescendantSel
        textContent_def orElse_def)
qed simp_all

lemma querySelectorAll_groupTexts:
  "map (\<lambda>e. orElse (replaceCDATA (textContent e)) [])
     (querySelectorAll el (DescendantSel a t))
   = concat (map (groupTexts a t (a \<in> set (localName el # ancestors el))) (childNodes el))"
proof -
  show ?thesis
    by (simp only: querySelectorAll_def descendantElements_def map_concat filter_concat
        map_map comp_def groupTexts_inclusiveDescendants)
qed

lemma recordsOfNode_inclusiveDescendants:
  "map videoOfElement (filter (\<lambda>e. localName e = ''video'') (inclusiveDescendants anc n))
     = recordsOfNode anc n"
proof (induction n arbitrary: anc)
  case (Element x cs)
  then show ?case
    by (simp add: map_concat filter_concat comp_def cong: map_cong)
qed simp_all

lemma parseXMLResponse_recordsOfNode:
  "parseXMLResponse (Document cs) = concat (map (recordsOfNode []) cs)"
proof -
  show ?thesis
    by (simp add: parseXMLResponse_def documentQuerySelectorAll_def documentElements_def
        matches_TypeSel map_concat filter_concat comp_def recordsOfNode_inclusiveDescendants)
qed

lemma firstNamed_some: "countElements t n \<noteq> 0 \<Longrightarrow> firstNamed t n \<noteq> None"
proof (induction n)
  case (Element x cs)
  show ?case
  proof (cases "x = t")
    case True
    then show ?thesis by simp
  next
    case False
    with Element.prems have "sum_list (map (countElements t) cs) \<noteq> 0" by simp
    then obtain c where c: "c \<in> set cs" "countElements t c \<noteq> 0"
      by (auto simp add: sum_list_eq_0_iff)
    with Element.IH have "firstNamed t c \<noteq> None" by blast
    with c(1) have "firstSome (map (firstNamed t) cs) \<noteq> None"
    proof (induction cs)
      case Nil
      then show ?case by simp
    next
      case (Cons d ds)
      then show ?case by (cases "firstNamed t d") auto
    qed
    with False show ?thesis by simp
  qed
qed simp_all

lemma fieldText_skip:
  "fieldText t [] = []"
  "fieldText t (Text d # after) = fieldText t after"
  "fieldText t (CDATASection d # after) = fieldText t after"
  "fieldText t (Comment d # after) = fieldText t after"
  "fieldText t (ProcessingInstruction p d # after) = fieldText t after"
  by (simp_all add: fieldText_def)

lemma fieldText_descend:
  assumes "n \<noteq> t"
  shows "fieldText t (Element n ds # after) =
     (if sum_list (map (countElements t) ds) = 0 then fieldText t after else fieldText t ds)"
proof (cases "sum_list (map (countElements t) ds) = 0")
  case True
  then have "\<forall>c \<in> set ds. firstNamed t c = None"
    by (auto intro: firstNamed_none)
  from firstSome_all_none [OF this, of "[]"] assms True show ?thesis
    by (simp add: fieldText_def)
next
  case False
  with assms have "countElements t (Element n ds) \<noteq> 0" by simp
  from firstNamed_some [OF this] assms obtain r
    where "firstSome (map (firstNamed t) ds) = Some r" by auto
  with assms have "fieldText t (Element n ds # after) = fieldText t ds"
    by (simp add: fieldText_def)
  with False show ?thesis by (simp only: if_False)
qed

section \<open>The response parser returns one record per video element\<close>

text \<open>
  Claim C1, amended. For a document with N \<^verbatim>\<open>video\<close> elements at any depth, counted by
  recursion over the tree, \<^verbatim>\<open>parseXMLResponse\<close> returns exactly N records, in document
  order: the record of a \<^verbatim>\<open>video\<close> element, then the records of the \<^verbatim>\<open>video\<close> elements
  nested in it, then those of its following siblings. Each record is extracted from its
  own \<^verbatim>\<open>video\<close> element only, and extraction has no failing case, so no record is dropped
  and nothing stops the parse. A scalar field is the text content, with the wrapper
  pattern replaced, of the first element of that name among the descendants of the
  \<^verbatim>\<open>video\<close> element in document order, a child or a deeper element; it is the empty string
  when no descendant has that name. Tags and playlists are the texts of the \<^verbatim>\<open>tag\<close> and
  \<^verbatim>\<open>playlist\<close> descendants that have a \<^verbatim>\<open>tags\<close> or \<^verbatim>\<open>playlists\<close> ancestor.
\<close>

theorem parseXMLResponse_records_in_document_order:
  "length (parseXMLResponse xmlDoc) = countDocumentElements ''video'' xmlDoc
   \<and> parseXMLResponse (Document nodes) = concat (map (recordsOfNode []) nodes)
   \<and> parseXMLResponse (Document (before @ after)) =
         parseXMLResponse (Document before) @ parseXMLResponse (Document after)
   \<and> videoOfElement videoEl =
       \<lparr> key = fieldText ''key'' (childNodes videoEl),
         title = fieldText ''title'' (childNodes videoEl),
         category = fieldText ''category'' (childNodes videoEl),
         tags = concat (map (groupTexts ''tags'' ''tag''
                  (''tags'' \<in> set (localName videoEl # ancestors videoEl))) (childNodes videoEl)),
         url = fieldText ''url'' (childNodes videoEl),
         adaptiveStream = fieldText ''adaptive_stream'' (childNodes videoEl),
         duration = fieldText ''duration'' (childNodes videoEl),
         summary = fieldText ''summary'' (childNodes videoEl),
         description = fieldText ''description'' (childNodes videoEl),
         thumbnails = \<lparr> full = fieldText ''thumb'' (childNodes videoEl),
                        small = fieldText ''thumbSmall'' (childNodes videoEl),
                        medium = fieldText ''thumbMedium'' (childNodes videoEl) \<rparr>,
         playlists = concat (map (groupTexts ''playlists'' ''playlist''
                  (''playlists'' \<in> set (localName videoEl # ancestors videoEl)))
                  (childNodes videoEl)),
         createDate = fieldText ''createDate'' (childNodes videoEl),
         lastModifiedDate = fieldText ''lastModifiedDate'' (childNodes videoEl),
         liveDate = fieldText ''liveDate'' (childNodes videoEl),
         owner = fieldText ''owner'' (childNodes videoEl),
         user = fieldText ''user'' (childNodes videoEl),
         id_field = fieldText ''id'' (childNodes videoEl) \<rparr>
   \<and> (sum_list (map (countElements t) cs) = 0 \<longrightarrow> fieldText t cs = [])
   \<and> (sum_list (map (countElements t) pre) = 0 \<longrightarrow>
        fieldText t (pre @ Element t ds # post) = replaceCDATA (concat (map descendantText ds)))
   \<and> (n \<noteq> t \<longrightarrow>
        fieldText t (Element n ds # post) =
          (if sum_list (map (countElements t) ds) = 0 then fieldText t post
           else fieldText t ds))
   \<and> fieldText t (Text d # post) = fieldText t post
   \<and> fieldText t (CDATASection d # post) = fieldText t post
   \<and> fieldText t (Comment d # post) = fieldText t post
   \<and> fieldText t (ProcessingInstruction p d # post) = fieldText t post"
proof -
  have n: "length (parseXMLResponse xmlDoc) = countDocumentElements ''video'' xmlDoc"
    by (simp add: parseXMLResponse_def length_documentQuerySelectorAll)
  have rec: "videoOfElement videoEl =
       \<lparr> key = fieldText ''key'' (childNodes videoEl),
         title = fieldText ''title'' (childNodes videoEl),
         category = fieldText ''category'' (childNodes videoEl),
         tags = concat (map (groupTexts ''tags'' ''tag''
                  (''tags'' \<in> set (localName videoEl # ancestors videoEl))) (childNodes videoEl)),
         url = fieldText ''url'' (childNodes videoEl),
         adaptiveStream = fieldText ''adaptive_stream'' (childNodes videoEl),
         duration = fieldText ''duration'' (childNodes videoEl),
         summary = fieldText ''summary'' (childNodes videoEl),
         description = fieldText ''description'' (childNodes videoEl),
         thumbnails = \<lparr> full = fieldText ''thumb'' (childNodes videoEl),
                        small = fieldText ''thumbSmall'' (childNodes videoEl),
                        medium = fieldText ''thumbMedium'' (childNodes videoEl) \<rparr>,
         playlists = concat (map (groupTexts ''playlists'' ''playlist''
                  (''playlists'' \<in> set (localName videoEl # ancestors videoEl)))
                  (childNodes videoEl)),
         createDate = fieldText ''createDate'' (childNodes videoEl),
         lastModifiedDate = fieldText ''lastModifiedDate'' (childNodes videoEl),
         liveDate = fieldText ''liveDate'' (childNodes videoEl),
         owner = fieldText ''owner'' (childNodes videoEl),
         user = fieldText ''user'' (childNodes videoEl),
         id_field = fieldText ''id'' (childNodes videoEl) \<rparr>"
    by (simp only: videoOfElement_def getCData_fieldText querySelectorAll_groupTexts)
  have a: "sum_list (map (countElements t) cs) = 0 \<longrightarrow> fieldText t cs = []"
    using fieldText_missing by blast
  have b: "sum_list (map (countElements t) pre) = 0 \<longrightarrow>
        fieldText t (pre @ Element t ds # post) = replaceCDATA (concat (map descendantText ds))"
    using fieldText_child by blast
  have c: "n \<noteq> t \<longrightarrow>
        fieldText t (Element n ds # post) =
          (if sum_list (map (countElements t) ds) = 0 then fieldText t post
           else fieldText t ds)"
    using fieldText_descend by blast
  from n rec a b c show ?thesis
    by (simp only: parseXMLResponse_recordsOfNode [of nodes]
        parseXMLResponse_append [of before after] fieldText_skip simp_thms)
qed

text \<open>
  The amended claim for the list response with two videos, for a title that is missing,
  a duration that is a child, and an \<^verbatim>\<open>id\<close> that is found one level deeper.
\<close>

theorem parseXMLResponse_records_in_document_order_witness:
  "parseXMLResponse listResponse =
     [\<lparr> key = ''k1'', title = ''First'', category = [], tags = [''news'', ''local''], url = [],
        adaptiveStream = [], duration = ''01:00'', summary = [], description = [],
        thumbnails = \<lparr> full = [], small = [], medium = ''https://cdn.example/m1.jpg'' \<rparr>,
        playlists = [], createDate = [], lastModifiedDate = [], liveDate = [], owner = [],
        user = [], id_field = [] \<rparr>,
      \<lparr> key = ''k2'', title = [], category = [], tags = [], url = [],
        adaptiveStream = [], duration = ''bad'', summary = [], description = [],
        thumbnails = \<lparr> full = [], small = [], medium = [] \<rparr>,
        playlists = [], createDate = [], lastModifiedDate = [], liveDate = [], owner = [],
        user = [], id_field = [] \<rparr>]
   \<and> sum_list (map (countElements ''title'')
         [Element ''key'' [CDATASection ''k2''], Element ''duration'' [CDATASection ''bad'']]) = 0
   \<and> fieldText ''title''
         [Element ''key'' [CDATASection ''k2''], Element ''duration'' [CDATASection ''bad'']] = []
   \<and> sum_list (map (countElements ''duration'') [Element ''key'' [CDATASection ''k2'']]) = 0
   \<and> fieldText ''duration''
         [Element ''key'' [CDATASection ''k2''], Element ''duration'' [CDATASection ''bad'']] =
       ''bad''
   \<and> ''user'' \<noteq> ''id''
   \<and> fieldText ''id'' [Element ''user'' [Element ''id'' [Text ''42'']]] = ''42''"
proof -
  let ?cs1 = "[Element ''key'' [CDATASection ''k1''],
       Element ''title'' [CDATASection ''First''],
       Element ''duration'' [CDATASection ''01:00''],
       Element ''thumbMedium'' [CDATASection ''https://cdn.example/m1.jpg''],
       Element ''tags'' [Element ''tag'' [CDATASection ''news''], Element ''tag'' [Text ''local'']]]"
  let ?cs2 = "[Element ''key'' [CDATASection ''k2''], Element ''duration'' [CDATASection ''bad'']]"
  let ?nodes = "[Element ''videos''
       [Element ''video'' ?cs1, Text [CHR 0x0A], Element ''video'' ?cs2]]"
  note first = parseXMLResponse_records_in_document_order
    [where nodes = ?nodes and videoEl = "Elem [''videos''] ''video'' ?cs1"
       and t = "''title''" and cs = ?cs2 and n = "''user''"]
  note second = parseXMLResponse_records_in_document_order
    [where videoEl = "Elem [''videos''] ''video'' ?cs2"
       and t = "''duration''" and pre = "[Element ''key'' [CDATASection ''k2'']]"
       and ds = "[CDATASection ''bad'']" and post = "[]"]
  note third = parseXMLResponse_records_in_document_order
    [where t = "''id''" and n = "''user''" and ds = "[Element ''id'' [Text ''42'']]"
       and post = "[]"]
  have h1: "sum_list (map (countElements ''title'') ?cs2) = 0" by simp
  have h2: "sum_list (map (countElements ''duration'') [Element ''key'' [CDATASection ''k2'']]) = 0"
    by simp
  have h3: "''user'' \<noteq> ''id''" by simp
  from first have "parseXMLResponse (Document ?nodes) = concat (map (recordsOfNode []) ?nodes)"
    by (rule conjunct2 [THEN conjunct1])
  then have recs: "parseXMLResponse listResponse =
      [videoOfElement (Elem [''videos''] ''video'' ?cs1),
       videoOfElement (Elem [''videos''] ''video'' ?cs2)]"
    by (simp add: listResponse_def)
  from first have v1: "videoOfElement (Elem [''videos''] ''video'' ?cs1) =
      \<lparr> key = ''k1'', title = ''First'', category = [], tags = [''news'', ''local''], url = [],
        adaptiveStream = [], duration = ''01:00'', summary = [], description = [],
        thumbnails = \<lparr> full = [], small = [], medium = ''https://cdn.example/m1.jpg'' \<rparr>,
        playlists = [], createDate = [], lastModifiedDate = [], liveDate = [], owner = [],
        user = [], id_field = [] \<rparr>"
    by (simp add: fieldText_def replaceCDATA_def matchesCDATA_def)
  from second have v2: "videoOfElement (Elem [''videos''] ''video'' ?cs2) =
      \<lparr> key = ''k2'', title = [], category = [], tags = [], url = [],
        adaptiveStream = [], duration = ''bad'', summary = [], description = [],
        thumbnails = \<lparr> full = [], small = [], medium = [] \<rparr>,
        playlists = [], createDate = [], lastModifiedDate = [], liveDate = [], owner = [],
        user = [], id_field = [] \<rparr>"
    by (simp add: fieldText_def replaceCDATA_def matchesCDATA_def)
  from first h1 have a: "fieldText ''title'' ?cs2 = []" by blast
  from second h2 have b: "fieldText ''duration'' ?cs2 = replaceCDATA ''bad''" by simp
  from third h3 have c: "fieldText ''id'' [Element ''user'' [Element ''id'' [Text ''42'']]] =
      fieldText ''id'' [Element ''id'' [Text ''42'']]"
    by simp
  from third have "fieldText ''id'' ([] @ Element ''id'' [Text ''42''] # []) =
      replaceCDATA (concat (map descendantText [Text ''42'']))"
    by (simp add: fieldText_def)
  with c have c': "fieldText ''id'' [Element ''user'' [Element ''id'' [Text ''42'']]] = ''42''"
    by (simp add: replaceCDATA_def matchesCDATA_def)
  from b have b': "fieldText ''duration'' ?cs2 = ''bad''"
    by (simp add: replaceCDATA_def matchesCDATA_def)
  from recs v1 v2 h1 a h2 b' h3 c' show ?thesis by simp
qed

text \<open>
  Claim C1 as stated says that a missing child element yields the empty string. A
  \<^verbatim>\<open>video\<close> element with the children \<^verbatim>\<open>key\<close> and \<^verbatim>\<open>user\<close> has no child \<^verbatim>\<open>id\<close>, but the
  \<^verbatim>\<open>id\<close> inside \<^verbatim>\<open>user\<close> becomes the \<^verbatim>\<open>id\<close> of the record; and a \<^verbatim>\<open>video\<close> element without
  a \<^verbatim>\<open>key\<close> child takes the key of a \<^verbatim>\<open>video\<close> element nested in it.
\<close>

theorem missing_child_counterexample:
  "''id'' \<notin> set (childElementNames
       [Element ''key'' [Text ''k''], Element ''user'' [Element ''id'' [Text ''42'']]])
   \<and> map id_field (parseXMLResponse (Document [Element ''video''
       [Element ''key'' [Text ''k''], Element ''user'' [Element ''id'' [Text ''42'']]]])) = [''42'']
   \<and> ''key'' \<notin> set (childElementNames
       [Element ''related'' [Element ''video'' [Element ''key'' [Text ''inner'']]]])
   \<and> map key (parseXMLResponse (Document [Element ''video''
       [Element ''related'' [Element ''video'' [Element ''key'' [Text ''inner'']]]]])) =
       [''inner'', ''inner'']"
  by code_simp

section \<open>The schema mapper is total and keeps the key\<close>

text \<open>
  Claim C2. \<^verbatim>\<open>convertToLocalVideo\<close> has no failing branch: it returns a video for every
  vendor record, and the \<^verbatim>\<open>id\<close> of the result is the vendor record's \<^verbatim>\<open>key\<close>. For a
  record with nothing but a key the result is written out in full.
\<close>

theorem convertToLocalVideo_total:
  "video_id (convertToLocalVideo now field59Video) = key field59Video
   \<and> convertToLocalVideo now (minimalVideo k) =
       \<lparr> video_id = k, video_title = [], video_url = [], video_thumbnail = Some [],
         video_duration = None, video_createdAt = now, video_size = None,
         video_format = Some ''mp4'', video_status = Some ready,
         video_field59 = Some
           \<lparr> f59_key = k, f59_category = [], f59_tags = [], f59_adaptiveStream = [],
             f59_summary = [], f59_description = [], f59_playlists = [],
             f59_lastModifiedDate = [], f59_owner = [] \<rparr> \<rparr>"
  by (simp add: convertToLocalVideo_def minimalVideo_def orElse_def parseDuration_def)

section \<open>Durations whose parts are not checked\<close>

text \<open>
  Claim C3. The claim is that a duration of any unparseable shape maps to an absent
  duration, never to zero. \<^verbatim>\<open>parseDuration\<close> checks the whole string with \<^verbatim>\<open>isNaN\<close> but
  not the parts it gets from splitting at the colons. With two or three parts of which one
  is not numeric the result is the number \<open>NaN\<close>, and with empty parts, or for a string of
  white space, it is \<open>0\<close>. The five examples of the claim hold (\<open>parseDuration_examples\<close>),
  and so does the claim for strings with one part or more than three
  (\<open>parseDuration_other_shapes\<close>).
\<close>

theorem parseDuration_unchecked_parts:
  "parseDuration ''ab:cd'' = Some NaN
   \<and> parseDuration ''1:xx:05'' = Some NaN
   \<and> parseDuration '':'' = Some (Finite 0)
   \<and> parseDuration '' '' = Some (Finite 0)"
  by code_simp

section \<open>Failed transport calls\<close>

text \<open>
  Claim C4, amended. A failed call has one of three outcomes, not four. Status 401 gives the
  error \<^verbatim>\<open>Invalid Field59 credentials\<close> in every operation. Status 404 gives \<^verbatim>\<open>null\<close> in
  \<^verbatim>\<open>getVideo\<close> and the error \<^verbatim>\<open>Video not found\<close> in \<^verbatim>\<open>deleteVideo\<close>; \<^verbatim>\<open>listVideos\<close> and
  \<^verbatim>\<open>createVideoFromUrl\<close> treat it as any other status. Every other Axios failure, with a
  response or without one, gives an error with the vendor's message if the response has a
  non-empty one, and with the description of the operation otherwise. An exception that
  is not an Axios error is thrown again as it is.
\<close>

theorem failed_calls_outcomes:
  "(status r = 401 \<longrightarrow>
      listVideos (Rejected (AxiosError (Some r))) = Throws (Error ''Invalid Field59 credentials'')
    \<and> createVideoFromUrl (Rejected (AxiosError (Some r))) =
        Throws (Error ''Invalid Field59 credentials'')
    \<and> deleteVideo (Rejected (AxiosError (Some r))) = Throws (Error ''Invalid Field59 credentials'')
    \<and> getVideo (Rejected (AxiosError (Some r))) = Throws (Error ''Invalid Field59 credentials''))
   \<and> (status r = 404 \<longrightarrow>
      getVideo (Rejected (AxiosError (Some r))) = Returns None
    \<and> deleteVideo (Rejected (AxiosError (Some r))) = Throws (Error ''Video not found''))
   \<and> (status r \<noteq> 401 \<longrightarrow>
      listVideos (Rejected (AxiosError (Some r))) =
        Throws (Error (messageOr (Some r) ''Failed to fetch videos from Field59''))
    \<and> createVideoFromUrl (Rejected (AxiosError (Some r))) =
        Throws (Error (messageOr (Some r) ''Failed to create video in Field59'')))
   \<and> (status r \<noteq> 401 \<and> status r \<noteq> 404 \<longrightarrow>
      deleteVideo (Rejected (AxiosError (Some r))) =
        Throws (Error (messageOr (Some r) ''Failed to delete video from Field59''))
    \<and> getVideo (Rejected (AxiosError (Some r))) =
        Throws (Error (messageOr (Some r) ''Failed to fetch video details'')))
   \<and> listVideos (Rejected (AxiosError None)) =
        Throws (Error ''Failed to fetch videos from Field59'')
   \<and> createVideoFromUrl (Rejected (AxiosError None)) =
        Throws (Error ''Failed to create video in Field59'')
   \<and> deleteVideo (Rejected (AxiosError None)) =
        Throws (Error ''Failed to delete video from Field59'')
   \<and> getVideo (Rejected (AxiosError None)) = Throws (Error ''Failed to fetch video details'')
   \<and> listVideos (Rejected (Error e)) = Throws (Error e)
   \<and> createVideoFromUrl (Rejected (Error e)) = Throws (Error e)
   \<and> deleteVideo (Rejected (Error e)) = Throws (Error e)
   \<and> getVideo (Rejected (Error e)) = Throws (Error e)
   \<and> (data_message r = Some m \<and> m \<noteq> [] \<longrightarrow> messageOr (Some r) fallback = m)
   \<and> (data_message r = None \<or> data_message r = Some [] \<longrightarrow>
        messageOr (Some r) fallback = fallback)"
  by (auto simp add: rejected_calls listVideos_catch_def createVideoFromUrl_catch_def
      deleteVideo_catch_def getVideo_catch_def messageOr_def orElse_def)

text \<open>The amended claim at statuses 401, 404, 500 and 503.\<close>

theorem failed_calls_outcomes_witness:
  "listVideos (Rejected (AxiosError (Some \<lparr> status = 401, data_message = None \<rparr>))) =
     Throws (Error ''Invalid Field59 credentials'')
   \<and> getVideo (Rejected (AxiosError (Some \<lparr> status = 404, data_message = None \<rparr>))) =
     Returns None
   \<and> deleteVideo (Rejected (AxiosError (Some \<lparr> status = 404, data_message = None \<rparr>))) =
     Throws (Error ''Video not found'')
   \<and> listVideos (Rejected (AxiosError (Some \<lparr> status = 404, data_message = None \<rparr>))) =
     Throws (Error ''Failed to fetch videos from Field59'')
   \<and> getVideo (Rejected (AxiosError
        (Some \<lparr> status = 500, data_message = Some ''Quota exceeded'' \<rparr>))) =
     Throws (Error ''Quota exceeded'')
   \<and> deleteVideo (Rejected (AxiosError (Some \<lparr> status = 503, data_message = Some [] \<rparr>))) =
     Throws (Error ''Failed to delete video from Field59'')"
  using failed_calls_outcomes [of "\<lparr> status = 401, data_message = None \<rparr>"]
    failed_calls_outcomes [of "\<lparr> status = 404, data_message = None \<rparr>"]
    failed_calls_outcomes [of "\<lparr> status = 500, data_message = Some ''Quota exceeded'' \<rparr>"
      _ "''Quota exceeded''" "''Failed to fetch video details''"]
    failed_calls_outcomes [of "\<lparr> status = 503, data_message = Some [] \<rparr>"
      _ _ "''Failed to delete video from Field59''"]
  by simp

text \<open>
  Claim C4 as stated asks for a network error when there is no HTTP response. A failure
  without a response and a status 500 without a message give the same error, so the
  outcome does not tell the two apart.
\<close>

theorem no_response_is_not_a_separate_kind_counterexample:
  "listVideos (Rejected (AxiosError None)) =
     Throws (Error ''Failed to fetch videos from Field59'')
   \<and> listVideos (Rejected (AxiosError (Some \<lparr> status = 500, data_message = None \<rparr>))) =
     listVideos (Rejected (AxiosError None))"
  by (simp add: listVideos_def listVideos_catch_def messageOr_def)

section \<open>Fields written as CDATA sections\<close>

text \<open>
  Claim C5, amended. Let the field that \<^verbatim>\<open>getCData\<close> selects hold \<open>x\<close>, as a CDATA section
  or as plain text. If \<open>x\<close> does not match the wrapper pattern, that is, \<open>x\<close> is not
  \<^verbatim>\<open>[CDATA[\<close>, some characters without a line terminator and \<^verbatim>\<open>]]\<close>, the field parses to
  exactly \<open>x\<close>. If \<open>x\<close> matches the pattern, the field parses to \<open>x\<close> without the leading
  \<^verbatim>\<open>[CDATA[\<close> and the trailing \<^verbatim>\<open>]]\<close>.
\<close>

theorem getCData_cdata_section:
  assumes "querySelector el (TypeSel tagName) = Some field"
    and "childNodes field = [CDATASection x] \<or> childNodes field = [Text x]"
  shows "(\<not> matchesCDATA x \<longrightarrow> getCData el tagName = x)
       \<and> (matchesCDATA x \<longrightarrow> x = ''[CDATA['' @ getCData el tagName @ '']]'')
       \<and> (matchesCDATA x \<longleftrightarrow>
            (\<exists>m. x = ''[CDATA['' @ m @ '']]'' \<and> list_all (\<lambda>c. \<not> isLineTerminator c) m))"
proof -
  from assms(2) have tc: "textContent field = x"
    by (auto simp add: textContent_def)
  with assms(1) have g: "getCData el tagName = replaceCDATA x"
    by (simp add: getCData_def orElse_def)
  have "getCData el tagName = x" if "\<not> matchesCDATA x"
    using that g by (simp add: replaceCDATA_def)
  moreover have "x = ''[CDATA['' @ getCData el tagName @ '']]''" if "matchesCDATA x"
    using matchesCDATA_unwrap [OF that] that g by (simp add: replaceCDATA_def)
  ultimately show ?thesis using matchesCDATA_iff [of x] by blast
qed

text \<open>
  The amended claim for the title \<^verbatim>\<open><![CDATA[First]]>\<close>, which does not match the pattern,
  and for the plain text \<^verbatim>\<open>[CDATA[First]]\<close>, which does.
\<close>

theorem getCData_cdata_section_witness:
  "querySelector (Elem [] ''video'' [Element ''key'' [], Element ''title'' [CDATASection ''First'']])
      (TypeSel ''title'') = Some (Elem [''video''] ''title'' [CDATASection ''First''])
   \<and> \<not> matchesCDATA ''First''
   \<and> getCData (Elem [] ''video'' [Element ''key'' [], Element ''title'' [CDATASection ''First'']])
        ''title'' = ''First''
   \<and> querySelector (Elem [] ''video'' [Element ''title'' [Text ''[CDATA[First]]'']])
      (TypeSel ''title'') = Some (Elem [''video''] ''title'' [Text ''[CDATA[First]]''])
   \<and> matchesCDATA ''[CDATA[First]]''
   \<and> getCData (Elem [] ''video'' [Element ''title'' [Text ''[CDATA[First]]'']]) ''title'' =
        ''First''"
proof -
  have q: "querySelector (Elem [] ''video'' [Element ''key'' [], Element ''title'' [CDATASection ''First'']])
      (TypeSel ''title'') = Some (Elem [''video''] ''title'' [CDATASection ''First''])"
    by (simp add: querySelector_def querySelectorAll_def descendantElements_def)
  have c: "childNodes (Elem [''video''] ''title'' [CDATASection ''First'']) = [CDATASection ''First'']
      \<or> childNodes (Elem [''video''] ''title'' [CDATASection ''First'']) = [Text ''First'']"
    by simp
  have n: "\<not> matchesCDATA ''First''"
    by (simp add: matchesCDATA_def)
  have q': "querySelector (Elem [] ''video'' [Element ''title'' [Text ''[CDATA[First]]'']])
      (TypeSel ''title'') = Some (Elem [''video''] ''title'' [Text ''[CDATA[First]]''])"
    by (simp add: querySelector_def querySelectorAll_def descendantElements_def)
  have c': "childNodes (Elem [''video''] ''title'' [Text ''[CDATA[First]]'']) =
        [CDATASection ''[CDATA[First]]'']
      \<or> childNodes (Elem [''video''] ''title'' [Text ''[CDATA[First]]'']) =
        [Text ''[CDATA[First]]'']"
    by simp
  have m: "matchesCDATA ''[CDATA[First]]''"
    by (simp add: matchesCDATA_def cdataInner_def isLineTerminator_def)
  from getCData_cdata_section [OF q' c'] m
  have "''[CDATA[First]]'' = ''[CDATA['' @
      getCData (Elem [] ''video'' [Element ''title'' [Text ''[CDATA[First]]'']]) ''title'' @ '']]''"
    by blast
  then have g': "getCData (Elem [] ''video'' [Element ''title'' [Text ''[CDATA[First]]'']]) ''title'' =
      ''First''"
    by simp
  from getCData_cdata_section [OF q c] n q q' m g' show ?thesis by blast
qed

text \<open>
  Claim C5 as stated fails for \<open>x\<close> = \<^verbatim>\<open>[CDATA[foo]]\<close>, which does not contain \<^verbatim>\<open>]]>\<close>: the
  field parses to \<^verbatim>\<open>foo\<close>.
\<close>

theorem getCData_cdata_wrapper_counterexample:
  "getCData (Elem [] ''video'' [Element ''title'' [CDATASection ''[CDATA[foo]]'']]) ''title''
     \<noteq> ''[CDATA[foo]]''"
  by code_simp

section \<open>The key of a create response\<close>

text \<open>
  Claim C6. For the response body \<^verbatim>\<open><video><key><![CDATA[abc123]]></key></video>\<close>,
  \<^verbatim>\<open>createVideoFromUrl\<close> returns \<^verbatim>\<open>abc123\<close>. For a response document without any \<^verbatim>\<open>key\<close>
  element it throws the error \<^verbatim>\<open>Failed to get video key from response\<close>, which the catch
  block passes on unchanged.
\<close>

theorem createVideoFromUrl_key_or_missing:
  "createVideoFromUrl (Resolved createResponse) = Returns ''abc123''
   \<and> (countDocumentElements ''key'' xmlDoc = 0 \<longrightarrow>
        createVideoFromUrl (Resolved xmlDoc) =
          Throws (Error ''Failed to get video key from response''))"
proof -
  have "createVideoFromUrl (Resolved createResponse) = Returns ''abc123''"
    by (simp add: createVideoFromUrl_def createVideoFromUrl_try_def createResponse_def
        documentQuerySelector_def documentQuerySelectorAll_def documentElements_def
        textContent_def)
  moreover have "createVideoFromUrl (Resolved xmlDoc) =
          Throws (Error ''Failed to get video key from response'')"
    if "countDocumentElements ''key'' xmlDoc = 0"
    using documentQuerySelector_none [OF that]
    by (simp add: createVideoFromUrl_def createVideoFromUrl_try_def createVideoFromUrl_catch_def)
  ultimately show ?thesis by blast
qed

text \<open>The second part of the claim for a response with a title and no key.\<close>

theorem createVideoFromUrl_key_or_missing_witness:
  "countDocumentElements ''key'' (Document [Element ''video'' [Element ''title'' [Text ''t'']]]) = 0
   \<and> createVideoFromUrl (Resolved (Document [Element ''video'' [Element ''title'' [Text ''t'']]])) =
        Throws (Error ''Failed to get video key from response'')"
  using createVideoFromUrl_key_or_missing
    [of "Document [Element ''video'' [Element ''title'' [Text ''t'']]]"]
  by (simp add: countDocumentElements_def)

section \<open>Thumbnail and URL selection\<close>

text \<open>
  Claim C7, amended. The thumbnail of the result is the medium thumbnail URL if that is
  not empty, and the full thumbnail URL otherwise, whether empty or not. It is always
  present: when both are empty it is the empty string.
\<close>

theorem convertToLocalVideo_thumbnail:
  "video_thumbnail (convertToLocalVideo now field59Video) =
     Some (if medium (thumbnails field59Video) \<noteq> [] then medium (thumbnails field59Video)
           else full (thumbnails field59Video))"
  by (simp add: convertToLocalVideo_def orElse_def)

text \<open>
  Claim C7 as stated says that a record without thumbnails has no thumbnail after
  mapping. It has one, the empty string.
\<close>

theorem thumbnail_both_empty_counterexample:
  "video_thumbnail (convertToLocalVideo ''2024-01-01T00:00:00.000Z'' (minimalVideo ''k2'')) = Some []"
  by (simp add: convertToLocalVideo_def minimalVideo_def orElse_def)

text \<open>
  Claim C8. The URL of the result is the vendor's \<^verbatim>\<open>url\<close> if that is not empty, and the
  adaptive stream otherwise; a record with an empty \<^verbatim>\<open>url\<close> and an adaptive stream gets the
  adaptive stream.
\<close>

theorem convertToLocalVideo_url:
  "video_url (convertToLocalVideo now field59Video) =
     (if url field59Video \<noteq> [] then url field59Video else adaptiveStream field59Video)
   \<and> (url field59Video = [] \<and> adaptiveStream field59Video \<noteq> [] \<longrightarrow>
        video_url (convertToLocalVideo now field59Video) = adaptiveStream field59Video)"
  by (simp add: convertToLocalVideo_def orElse_def)

text \<open>The claim for a record that has only an adaptive stream.\<close>

theorem convertToLocalVideo_url_witness:
  "url ((minimalVideo ''k1'') \<lparr> adaptiveStream := ''https://cdn.example/k1.m3u8'' \<rparr>) = []
   \<and> video_url (convertToLocalVideo ''2024-01-01T00:00:00.000Z''
        ((minimalVideo ''k1'') \<lparr> adaptiveStream := ''https://cdn.example/k1.m3u8'' \<rparr>))
       = ''https://cdn.example/k1.m3u8''"
  using convertToLocalVideo_url [of "''2024-01-01T00:00:00.000Z''"
      "(minimalVideo ''k1'') \<lparr> adaptiveStream := ''https://cdn.example/k1.m3u8'' \<rparr>"]
  by (simp add: minimalVideo_def)

section \<open>The create response is read without the wrapper pattern\<close>

text \<open>
  Claim C9. The claim is that \<^verbatim>\<open>createVideoFromUrl\<close> reads the key with the routine that
  the response parser uses. It reads the text content of the key element and does not
  apply the replacement of \<^verbatim>\<open>getCData\<close>. For a key element with the text
  \<^verbatim>\<open>[CDATA[abc123]]\<close> it returns that text, where \<^verbatim>\<open>getCData\<close> and \<^verbatim>\<open>parseXMLResponse\<close>
  give \<^verbatim>\<open>abc123\<close> for the same document.
\<close>

theorem createVideoFromUrl_skips_replaceCDATA:
  "createVideoFromUrl (Resolved createResponseLiteral) = Returns ''[CDATA[abc123]]''
   \<and> getCData (Elem [] ''video'' [Element ''key'' [Text ''[CDATA[abc123]]'']]) ''key'' = ''abc123''
   \<and> map key (parseXMLResponse createResponseLiteral) = [''abc123'']"
  by code_simp

section \<open>An empty document and a missing video look the same\<close>

text \<open>
  Claim C10. When the request of \<^verbatim>\<open>getVideo\<close> succeeds, the result is the first record
  parsed from the document, and \<^verbatim>\<open>null\<close> when the document has no \<^verbatim>\<open>video\<close> element; that
  is also the result for status 404.
\<close>

theorem getVideo_first_or_null:
  "getVideo (Resolved xmlDoc) =
     Returns (case parseXMLResponse xmlDoc of [] \<Rightarrow> None | v # vs \<Rightarrow> Some v)
   \<and> (countDocumentElements ''video'' xmlDoc = 0 \<longrightarrow>
        getVideo (Resolved xmlDoc) = Returns None
        \<and> getVideo (Resolved xmlDoc) =
            getVideo (Rejected (AxiosError (Some \<lparr> status = 404, data_message = m \<rparr>))))"
proof -
  have first: "getVideo (Resolved xmlDoc) =
     Returns (case parseXMLResponse xmlDoc of [] \<Rightarrow> None | v # vs \<Rightarrow> Some v)"
    by (cases "parseXMLResponse xmlDoc") (simp_all add: getVideo_def)
  have nf: "getVideo (Rejected (AxiosError (Some \<lparr> status = 404, data_message = m \<rparr>))) = Returns None"
    by (simp add: getVideo_def getVideo_catch_def)
  have "parseXMLResponse xmlDoc = []" if "countDocumentElements ''video'' xmlDoc = 0"
    using that length_documentQuerySelectorAll [of xmlDoc "''video''"]
    by (simp add: parseXMLResponse_def)
  with first nf show ?thesis by simp
qed

text \<open>The claim for a document whose root element is empty.\<close>

theorem getVideo_first_or_null_witness:
  "countDocumentElements ''video'' (Document [Element ''videos'' []]) = 0
   \<and> getVideo (Resolved (Document [Element ''videos'' []])) = Returns None
   \<and> getVideo (Resolved (Document [Element ''videos'' []])) =
       getVideo (Rejected (AxiosError (Some \<lparr> status = 404, data_message = None \<rparr>)))"
proof -
  have h: "countDocumentElements ''video'' (Document [Element ''videos'' []]) = 0"
    by (simp add: countDocumentElements_def)
  from getVideo_first_or_null [of "Document [Element ''videos'' []]" None] h
  show ?thesis by blast
qed

end
